theory Spec2Isabelle
  imports Main
begin

section \<open>Python values used by \<open>web_scraper.py\<close>\<close>

text \<open>
  A Python \<open>str\<close> is a sequence of code points; it is modelled as a \<open>string\<close> with one
  list element per code point. A \<open>Dict[str, str]\<close> keeps its insertion order and is
  modelled as an association list; the empty dict \<open>{}\<close> is \<open>[]\<close> and is the only falsy
  dict.
\<close>

type_synonym pydict = "(string \<times> string) list"

text \<open>
  Exceptions are values: a class and the text \<open>str(e)\<close> that the log messages print.
  \<open>Timeout\<close>, \<open>ConnectionError\<close>, \<open>HTTPError\<close> and \<open>RequestException\<close> stand for the
  hierarchy below \<open>requests.RequestException\<close> (itself an \<open>IOError\<close>); \<open>KeyboardInterrupt\<close>
  is the one class here that is not an \<open>Exception\<close>.
\<close>

datatype exc_class =
    Timeout | ConnectionError | HTTPError | RequestException
  | OSError | AttributeError | TypeError | KeyError | IndexError | ValueError
  | RuntimeError | KeyboardInterrupt

datatype py_exception = PyExc (exc_cls: exc_class) (exc_msg: string)

fun is_RequestException :: "exc_class \<Rightarrow> bool" where
  "is_RequestException Timeout = True"
| "is_RequestException ConnectionError = True"
| "is_RequestException HTTPError = True"
| "is_RequestException RequestException = True"
| "is_RequestException _ = False"

fun is_IOError :: "exc_class \<Rightarrow> bool" where
  "is_IOError OSError = True"
| "is_IOError c = is_RequestException c"

fun is_Exception :: "exc_class \<Rightarrow> bool" where
  "is_Exception KeyboardInterrupt = False"
| "is_Exception _ = True"

definition bind_exc :: "'e + 'a \<Rightarrow> ('a \<Rightarrow> 'e + 'b) \<Rightarrow> 'e + 'b" where
  "bind_exc m f = (case m of Inl e \<Rightarrow> Inl e | Inr v \<Rightarrow> f v)"

text \<open>\<open>str(n)\<close> for an integer, as the f-strings format the page number.\<close>

definition digit_char :: "nat \<Rightarrow> char" where
  "digit_char d = ''0123456789'' ! d"

fun str_nat :: "nat \<Rightarrow> string" where
  "str_nat n = (if n < 10 then [digit_char n] else str_nat (n div 10) @ [digit_char (n mod 10)])"

declare str_nat.simps [simp del]

definition str_int :: "int \<Rightarrow> string" where
  "str_int i = (if i < 0 then CHR ''-'' # str_nat (nat (- i)) else str_nat (nat i))"

text \<open>\<open>range(a, b)\<close> over integers.\<close>

definition py_range :: "int \<Rightarrow> int \<Rightarrow> int list" where
  "py_range a b = [a..b - 1]"

text \<open>\<open>s[1:]\<close> and \<open>s.strip()\<close>. Slicing never raises; \<open>strip\<close> removes the
  whitespace code points below 256 at both ends.\<close>

definition slice_from_1 :: "string \<Rightarrow> string" where
  "slice_from_1 s = drop 1 s"

definition is_py_space :: "char \<Rightarrow> bool" where
  "is_py_space c = (let n = (of_char c :: nat) in
     (9 \<le> n \<and> n \<le> 13) \<or> (28 \<le> n \<and> n \<le> 32) \<or> n = 133 \<or> n = 160)"

definition strip :: "string \<Rightarrow> string" where
  "strip s = rev (dropWhile is_py_space (rev (dropWhile is_py_space s)))"

definition quoted :: "string \<Rightarrow> string" where
  "quoted s = [CHR 0x27] @ s @ [CHR 0x27]"

section \<open>The parsed page: what BeautifulSoup hands to the scraper\<close>

text \<open>
  The scraper reads a book element only through \<open>.h3\<close>, \<open>.a\<close>, \<open>[attr]\<close>,
  \<open>.find('p', class_=c)\<close>, \<open>.text\<close> and \<open>['class']\<close>. An element is modelled by what
  these reads return: \<open>None\<close> where BeautifulSoup returns \<open>None\<close>, a missing key where
  the attribute is absent.
\<close>

datatype a_tag = ATag (a_attrs: "string \<rightharpoonup> string")

datatype h3_tag = H3Tag (h3_a: "a_tag option")

record p_tag =
  p_text :: string
  p_class :: "string list option"

record book_element =
  elem_h3 :: "h3_tag option"
  elem_find_p :: "string \<Rightarrow> p_tag option"

definition none_has_no_attribute :: "string \<Rightarrow> py_exception" where
  "none_has_no_attribute name =
     PyExc AttributeError (quoted ''NoneType'' @ '' object has no attribute '' @ quoted name)"

definition none_not_subscriptable :: py_exception where
  "none_not_subscriptable = PyExc TypeError (quoted ''NoneType'' @ '' object is not subscriptable'')"

definition key_error :: "string \<Rightarrow> py_exception" where
  "key_error k = PyExc KeyError (quoted k)"

text \<open>\<open>book_element.h3.a[attr]\<close>\<close>

definition h3_a_attr :: "book_element \<Rightarrow> string \<Rightarrow> py_exception + string" where
  "h3_a_attr book attr =
     (case elem_h3 book of
        None \<Rightarrow> Inl (none_has_no_attribute ''a'')
      | Some h3 \<Rightarrow>
          (case h3_a h3 of
             None \<Rightarrow> Inl none_not_subscriptable
           | Some a \<Rightarrow>
               (case a_attrs a attr of
                  None \<Rightarrow> Inl (key_error attr)
                | Some v \<Rightarrow> Inr v)))"

text \<open>\<open>book_element.find('p', class_=c).text\<close>\<close>

definition find_p_text :: "book_element \<Rightarrow> string \<Rightarrow> py_exception + string" where
  "find_p_text book c =
     (case elem_find_p book c of
        None \<Rightarrow> Inl (none_has_no_attribute ''text'')
      | Some p \<Rightarrow> Inr (p_text p))"

text \<open>\<open>book_element.find('p', class_=c)['class'][1]\<close>\<close>

definition find_p_class_1 :: "book_element \<Rightarrow> string \<Rightarrow> py_exception + string" where
  "find_p_class_1 book c =
     (case elem_find_p book c of
        None \<Rightarrow> Inl none_not_subscriptable
      | Some p \<Rightarrow>
          (case p_class p of
             None \<Rightarrow> Inl (key_error ''class'')
           | Some cs \<Rightarrow>
               (if 1 < length cs then Inr (cs ! 1)
                else Inl (PyExc IndexError ''list index out of range''))))"

section \<open>The scraper\<close>

record scraper =
  base_url :: string
  headers :: "(string \<times> string) list"

definition user_agent :: string where
  "user_agent = ''Mozilla/5.0 (Windows NT 10.0; Win64; x64) AppleWebKit/537.36 (KHTML, like Gecko) Chrome/91.0.4472.124 Safari/537.36''"

text \<open>\<open>WebScraper.__init__\<close> (the logging configuration has no effect on the crawl).\<close>

definition init :: "string \<Rightarrow> scraper" where
  "init url = \<lparr>base_url = url, headers = [(''User-Agent'', user_agent)]\<rparr>"

text \<open>What the scraper does to the outside world, in the order it does it.\<close>

datatype event =
    HttpGet string "(string \<times> string) list" int
  | Sleep int
  | LogInfo string
  | LogWarning string
  | LogError string

subsection \<open>\<open>_extract_book_details\<close>\<close>

text \<open>The five field reads, one per line of the \<open>try\<close> body.\<close>

definition read_title :: "book_element \<Rightarrow> py_exception + string" where
  "read_title book = h3_a_attr book ''title''"

definition read_price :: "book_element \<Rightarrow> py_exception + string" where
  "read_price book = bind_exc (find_p_text book ''price_color'') (\<lambda>t. Inr (slice_from_1 t))"

definition read_availability :: "book_element \<Rightarrow> py_exception + string" where
  "read_availability book =
     bind_exc (find_p_text book ''instock availability'') (\<lambda>t. Inr (strip t))"

definition read_rating :: "book_element \<Rightarrow> py_exception + string" where
  "read_rating book = find_p_class_1 book ''star-rating''"

definition read_book_url :: "scraper \<Rightarrow> book_element \<Rightarrow> py_exception + string" where
  "read_book_url s book =
     bind_exc (h3_a_attr book ''href'') (\<lambda>href. Inr (base_url s @ ''/'' @ href))"

text \<open>The \<open>try\<close> body: the reads in source order, then the dict literal.\<close>

definition extract_try :: "scraper \<Rightarrow> book_element \<Rightarrow> py_exception + pydict" where
  "extract_try s book =
     bind_exc (read_title book) (\<lambda>title.
     bind_exc (read_price book) (\<lambda>price.
     bind_exc (read_availability book) (\<lambda>availability.
     bind_exc (read_rating book) (\<lambda>rating.
     bind_exc (read_book_url s book) (\<lambda>book_url.
       Inr [(''Title'', title), (''Price'', price), (''Availability'', availability),
            (''Rating'', rating), (''URL'', book_url)])))))"

text \<open>
  \<open>except Exception\<close>: log a warning and return \<open>{}\<close>. The result is the exception that
  escapes (none of the reads raises one that is not an \<open>Exception\<close>), or the dict together
  with what was logged.
\<close>

definition extract_book_details ::
  "scraper \<Rightarrow> book_element \<Rightarrow> py_exception + (pydict \<times> event list)" where
  "extract_book_details s book =
     (case extract_try s book of
        Inr d \<Rightarrow> Inr (d, [])
      | Inl e \<Rightarrow>
          (if is_Exception (exc_cls e)
           then Inr ([], [LogWarning (''Could not extract book details: '' @ exc_msg e)])
           else Inl e))"

subsection \<open>\<open>scrape_books\<close>\<close>

text \<open>
  The network and the HTML parser are parameters: \<open>requests_get url headers timeout\<close>
  is the outcome of \<open>requests.get\<close>, \<open>raise_for_status\<close> says whether the library
  raises for a response, and \<open>find_all_product_pod body\<close> is
  \<open>BeautifulSoup(body, 'html.parser').find_all('article', class_='product_pod')\<close>.
\<close>

record response =
  status_code :: int
  resp_text :: string

record env =
  requests_get :: "string \<Rightarrow> (string \<times> string) list \<Rightarrow> int \<Rightarrow> py_exception + response"
  raise_for_status :: "response \<Rightarrow> py_exception option"
  find_all_product_pod :: "string \<Rightarrow> book_element list"

record crawl_state =
  trace :: "event list"
  all_books :: "pydict list"

definition emit :: "event list \<Rightarrow> crawl_state \<Rightarrow> crawl_state" where
  "emit es st = st\<lparr>trace := trace st @ es\<rparr>"

definition page_url :: "scraper \<Rightarrow> int \<Rightarrow> string" where
  "page_url s page =
     (if page > 1 then base_url s @ ''/catalogue/page-'' @ str_int page @ ''.html''
      else base_url s)"

text \<open>Lines 42--49: the request, the status check, the parse and the selection.\<close>

definition fetch_books :: "env \<Rightarrow> scraper \<Rightarrow> int \<Rightarrow> py_exception + book_element list" where
  "fetch_books env s page =
     bind_exc (requests_get env (page_url s page) (headers s) 10) (\<lambda>response.
       case raise_for_status env response of
         Some e \<Rightarrow> Inl e
       | None \<Rightarrow> Inr (find_all_product_pod env (resp_text response)))"

text \<open>Lines 55--58: the inner loop over the page's elements.\<close>

fun extract_loop ::
  "scraper \<Rightarrow> book_element list \<Rightarrow> crawl_state \<Rightarrow> py_exception option \<times> crawl_state" where
  "extract_loop s [] st = (None, st)"
| "extract_loop s (book # books) st =
     (case extract_book_details s book of
        Inl e \<Rightarrow> (Some e, st)
      | Inr (book_info, logged) \<Rightarrow>
          extract_loop s books
            (if book_info \<noteq> []
             then (emit logged st)\<lparr>all_books := all_books st @ [book_info]\<rparr>
             else emit logged st))"

text \<open>One iteration of the page loop: how it leaves the loop body, and the new state.\<close>

datatype loop_ctl = Next | Break | Raise py_exception

definition scrape_page :: "env \<Rightarrow> scraper \<Rightarrow> int \<Rightarrow> crawl_state \<Rightarrow> loop_ctl \<times> crawl_state" where
  "scrape_page env s page st =
     (let st1 = emit [HttpGet (page_url s page) (headers s) 10] st;
          handler = (\<lambda>e st'.
            if is_RequestException (exc_cls e)
            then (Next, emit [LogError (''Error scraping page '' @ str_int page @ '': '' @ exc_msg e)] st')
            else (Raise e, st'))
      in case fetch_books env s page of
           Inl e \<Rightarrow> handler e st1
         | Inr books \<Rightarrow>
             (if books = []
              then (Break, emit [LogWarning (''No books found on page '' @ str_int page)] st1)
              else (case extract_loop s books st1 of
                      (Some e, st2) \<Rightarrow> handler e st2
                    | (None, st2) \<Rightarrow> (Next, emit [Sleep 1] st2))))"

fun scrape_loop ::
  "env \<Rightarrow> scraper \<Rightarrow> int list \<Rightarrow> crawl_state \<Rightarrow> py_exception option \<times> crawl_state" where
  "scrape_loop env s [] st = (None, st)"
| "scrape_loop env s (page # pages) st =
     (case scrape_page env s page st of
        (Next, st') \<Rightarrow> scrape_loop env s pages st'
      | (Break, st') \<Rightarrow> (None, st')
      | (Raise e, st') \<Rightarrow> (Some e, st'))"

definition scrape_books :: "env \<Rightarrow> scraper \<Rightarrow> int \<Rightarrow> (py_exception + pydict list) \<times> event list" where
  "scrape_books env s max_pages =
     (case scrape_loop env s (py_range 1 (max_pages + 1)) \<lparr>trace = [], all_books = []\<rparr> of
        (None, st) \<Rightarrow> (Inr (all_books st), trace st)
      | (Some e, st) \<Rightarrow> (Inl e, trace st))"

subsection \<open>\<open>save_to_csv\<close>\<close>

text \<open>
  The file system and the \<open>csv\<close> module are parameters: \<open>open_w filename\<close> says
  whether opening the file for writing raises, \<open>write_header\<close> and \<open>write_row\<close> give
  the text that \<open>DictWriter\<close> writes for the header and for one dict (or the exception
  \<open>writerow\<close> raises).
\<close>

record fs_env =
  open_w :: "string \<Rightarrow> py_exception option"
  write_header :: "string list \<Rightarrow> string"
  write_row :: "string list \<Rightarrow> pydict \<Rightarrow> py_exception + string"

record io_state =
  files :: "string \<rightharpoonup> string"
  logged :: "event list"

definition default_filename :: string where
  "default_filename = ''scraped_books.csv''"

fun write_rows ::
  "fs_env \<Rightarrow> string list \<Rightarrow> pydict list \<Rightarrow> string \<Rightarrow> py_exception option \<times> string" where
  "write_rows fe fieldnames [] content = (None, content)"
| "write_rows fe fieldnames (book # books) content =
     (case write_row fe fieldnames book of
        Inl e \<Rightarrow> (Some e, content)
      | Inr line \<Rightarrow> write_rows fe fieldnames books (content @ line))"

definition save_to_csv ::
  "fs_env \<Rightarrow> pydict list \<Rightarrow> string \<Rightarrow> io_state \<Rightarrow> py_exception option \<times> io_state" where
  "save_to_csv fe books filename io =
     (case books of
        [] \<Rightarrow> (None, io\<lparr>logged := logged io @ [LogWarning ''No data to save!'']\<rparr>)
      | first # rest \<Rightarrow>
          (let handler = (\<lambda>e io'.
                 if is_IOError (exc_cls e)
                 then (None, io'\<lparr>logged := logged io' @ [LogError (''Error saving CSV: '' @ exc_msg e)]\<rparr>)
                 else (Some e, io'))
           in case open_w fe filename of
                Some e \<Rightarrow> handler e io
              | None \<Rightarrow>
                  (let fieldnames = map fst first;
                       written = write_rows fe fieldnames books (write_header fe fieldnames);
                       io1 = io\<lparr>files := (files io)(filename \<mapsto> snd written)\<rparr>
                   in case fst written of
                        Some e \<Rightarrow> handler e io1
                      | None \<Rightarrow>
                          (None, io1\<lparr>logged := logged io1 @ [LogInfo (''Data saved to '' @ filename)]\<rparr>))))"

section \<open>Notions used to state the properties\<close>

text \<open>What one element and one list of elements contribute, read off \<open>extract_try\<close>.\<close>

definition book_records :: "scraper \<Rightarrow> book_element \<Rightarrow> pydict list" where
  "book_records s book = (case extract_try s book of Inr d \<Rightarrow> [d] | Inl e \<Rightarrow> [])"

definition book_logged :: "scraper \<Rightarrow> book_element \<Rightarrow> event list" where
  "book_logged s book =
     (case extract_try s book of
        Inr d \<Rightarrow> []
      | Inl e \<Rightarrow> [LogWarning (''Could not extract book details: '' @ exc_msg e)])"

definition extract_records :: "scraper \<Rightarrow> book_element list \<Rightarrow> pydict list" where
  "extract_records s books = concat (map (book_records s) books)"

definition extract_logged :: "scraper \<Rightarrow> book_element list \<Rightarrow> event list" where
  "extract_logged s books = concat (map (book_logged s) books)"

text \<open>Reading one of the five fields of an element raises.\<close>

definition field_read_fails :: "scraper \<Rightarrow> book_element \<Rightarrow> bool" where
  "field_read_fails s book =
     (isl (read_title book) \<or> isl (read_price book) \<or> isl (read_availability book)
      \<or> isl (read_rating book) \<or> isl (read_book_url s book))"

text \<open>The request of a page, and what one iteration of the page loop does.\<close>

fun is_HttpGet :: "event \<Rightarrow> bool" where
  "is_HttpGet (HttpGet url hs t) = True"
| "is_HttpGet _ = False"

definition page_request :: "scraper \<Rightarrow> int \<Rightarrow> event" where
  "page_request s page = HttpGet (page_url s page) (headers s) 10"

definition page_ctl :: "env \<Rightarrow> scraper \<Rightarrow> int \<Rightarrow> loop_ctl" where
  "page_ctl env s page =
     (case fetch_books env s page of
        Inl e \<Rightarrow> if is_RequestException (exc_cls e) then Next else Raise e
      | Inr books \<Rightarrow> if books = [] then Break else Next)"

definition page_records :: "env \<Rightarrow> scraper \<Rightarrow> int \<Rightarrow> pydict list" where
  "page_records env s page =
     (case fetch_books env s page of
        Inl e \<Rightarrow> []
      | Inr books \<Rightarrow> extract_records s books)"

definition page_events :: "env \<Rightarrow> scraper \<Rightarrow> int \<Rightarrow> event list" where
  "page_events env s page =
     page_request s page #
     (case fetch_books env s page of
        Inl e \<Rightarrow>
          if is_RequestException (exc_cls e)
          then [LogError (''Error scraping page '' @ str_int page @ '': '' @ exc_msg e)]
          else []
      | Inr books \<Rightarrow>
          if books = [] then [LogWarning (''No books found on page '' @ str_int page)]
          else extract_logged s books @ [Sleep 1])"

fun visited :: "env \<Rightarrow> scraper \<Rightarrow> int list \<Rightarrow> int list" where
  "visited env s [] = []"
| "visited env s (page # pages) =
     page # (if page_ctl env s page = Next then visited env s pages else [])"

fun loop_exit :: "env \<Rightarrow> scraper \<Rightarrow> int list \<Rightarrow> py_exception option" where
  "loop_exit env s [] = None"
| "loop_exit env s (page # pages) =
     (case page_ctl env s page of
        Next \<Rightarrow> loop_exit env s pages
      | Break \<Rightarrow> None
      | Raise e \<Rightarrow> Some e)"

text \<open>
  The outcomes of a page's fetch that the properties speak of: a successful fetch with
  no element selected, a fetch that raises a \<open>RequestException\<close>, and a fetch that
  either succeeds or raises a \<open>RequestException\<close> (nothing else escapes the library).
\<close>

definition is_empty_page :: "env \<Rightarrow> scraper \<Rightarrow> int \<Rightarrow> bool" where
  "is_empty_page env s page =
     (case fetch_books env s page of Inl e \<Rightarrow> False | Inr books \<Rightarrow> books = [])"

definition fetch_fails :: "env \<Rightarrow> scraper \<Rightarrow> int \<Rightarrow> bool" where
  "fetch_fails env s page =
     (case fetch_books env s page of
        Inl e \<Rightarrow> is_RequestException (exc_cls e)
      | Inr books \<Rightarrow> False)"




text \<open>Reading a decimal numeral back, to tell the page addresses apart.\<close>

definition digit_val :: "char \<Rightarrow> nat" where
  "digit_val c = of_char c - 48"

definition nat_of_str :: "string \<Rightarrow> nat" where
  "nat_of_str cs = foldl (\<lambda>a c. 10 * a + digit_val c) 0 cs"

text \<open>
  The specification's wording for the price: "strip a leading currency symbol". The
  currency symbols among the code points below 256 are the dollar, cent, pound,
  currency and yen signs.
\<close>

definition is_currency_symbol :: "char \<Rightarrow> bool" where
  "is_currency_symbol c = (c \<in> set [CHR ''$'', CHR 0xA2, CHR 0xA3, CHR 0xA4, CHR 0xA5])"

definition strip_leading_currency :: "string \<Rightarrow> string" where
  "strip_leading_currency t =
     (case t of [] \<Rightarrow> [] | c # rest \<Rightarrow> if is_currency_symbol c then rest else c # rest)"

section \<open>A small site to run the scraper on\<close>

definition http_error :: "int \<Rightarrow> py_exception" where
  "http_error code = PyExc HTTPError (str_int code @ '' Error'')"

text \<open>
  A site is a table from URL to the outcome of the request and a table from page body to
  the elements selected in it; a URL that is not listed is unreachable, and the status
  check raises for the 4xx and 5xx statuses, as \<open>Response.raise_for_status\<close> of the
  requests library does.
\<close>

definition site_env ::
  "(string \<times> (py_exception + response)) list \<Rightarrow> (string \<times> book_element list) list \<Rightarrow> env" where
  "site_env net html =
     \<lparr>requests_get = (\<lambda>url hs t.
        case map_of net url of
          Some r \<Rightarrow> r
        | None \<Rightarrow> Inl (PyExc ConnectionError ''unreachable'')),
      raise_for_status = (\<lambda>r.
        if 400 \<le> status_code r \<and> status_code r < 600 then Some (http_error (status_code r))
        else None),
      find_all_product_pod = (\<lambda>body.
        case map_of html body of Some books \<Rightarrow> books | None \<Rightarrow> [])\<rparr>"

definition book_p :: "string option \<Rightarrow> string \<Rightarrow> p_tag option" where
  "book_p price c =
     (if c = ''price_color''
      then map_option (\<lambda>t. \<lparr>p_text = t, p_class = Some [''price_color'']\<rparr>) price
      else if c = ''instock availability''
      then Some \<lparr>p_text = '' In stock '', p_class = Some [''instock'', ''availability'']\<rparr>
      else if c = ''star-rating''
      then Some \<lparr>p_text = [], p_class = Some [''star-rating'', ''Three'']\<rparr>
      else None)"

text \<open>A book element with the given price text, or with no price paragraph at all.\<close>

definition book_with_price :: "string option \<Rightarrow> book_element" where
  "book_with_price price =
     \<lparr>elem_h3 = Some (H3Tag (Some (ATag [''title'' \<mapsto> ''Emma'', ''href'' \<mapsto> ''emma.html'']))),
      elem_find_p = book_p price\<rparr>"

definition ok_page :: "string \<Rightarrow> py_exception + response" where
  "ok_page body = Inr \<lparr>status_code = 200, resp_text = body\<rparr>"

text \<open>
  Five pages: page 1 has a good and a bad element, page 2 times out, page 3 has only a
  bad element, page 4 is empty, page 5 has a good element.
\<close>

definition shop :: env where
  "shop = site_env
     [(''http://b'', ok_page ''one''),
      (''http://b/catalogue/page-2.html'', Inl (PyExc Timeout ''timed out'')),
      (''http://b/catalogue/page-3.html'', ok_page ''three''),
      (''http://b/catalogue/page-4.html'', ok_page ''four''),
      (''http://b/catalogue/page-5.html'', ok_page ''five'')]
     [(''one'', [book_with_price (Some ''$51.77''), book_with_price None]),
      (''three'', [book_with_price None]),
      (''five'', [book_with_price (Some ''9.99'')])]"

text \<open>Two pages: page 1 times out, page 2 has a good element.\<close>

definition flaky :: env where
  "flaky = site_env
     [(''http://b'', Inl (PyExc Timeout ''timed out'')),
      (''http://b/catalogue/page-2.html'', ok_page ''two'')]
     [(''two'', [book_with_price (Some ''$51.77'')])]"

text \<open>One page with the same good element twice; every other page is unreachable.\<close>

definition twins :: env where
  "twins = site_env
     [(''http://b'', ok_page ''one'')]
     [(''one'', [book_with_price (Some ''$51.77''), book_with_price (Some ''$51.77'')])]"

text \<open>Two pages with one good element each, answered with status 404 and 304.\<close>

definition statuses :: env where
  "statuses = site_env
     [(''http://b'', Inr \<lparr>status_code = 404, resp_text = ''one''\<rparr>),
      (''http://b/catalogue/page-2.html'', Inr \<lparr>status_code = 304, resp_text = ''one''\<rparr>)]
     [(''one'', [book_with_price (Some ''$51.77'')])]"

text \<open>No page can be reached.\<close>

definition offline :: env where
  "offline = site_env [] []"

text \<open>
  The same network, except that it refuses every request that does not carry exactly the
  browser \<open>User-Agent\<close> header and the timeout 10.
\<close>

definition browser_only :: "env \<Rightarrow> env" where
  "browser_only env =
     \<lparr>requests_get = (\<lambda>url hs t.
        if hs = [(''User-Agent'', user_agent)] \<and> t = 10 then requests_get env url hs t
        else Inl (PyExc ConnectionError ''refused'')),
      raise_for_status = raise_for_status env,
      find_all_product_pod = find_all_product_pod env\<rparr>"

section \<open>How the loops unfold\<close>

lemma h3_a_attr_exc: "h3_a_attr b k = Inl e \<Longrightarrow> is_Exception (exc_cls e)"
  by (auto simp: h3_a_attr_def none_has_no_attribute_def none_not_subscriptable_def key_error_def
      split: option.splits)

lemma find_p_text_exc: "find_p_text b k = Inl e \<Longrightarrow> is_Exception (exc_cls e)"
  by (auto simp: find_p_text_def none_has_no_attribute_def split: option.splits)

lemma find_p_class_1_exc: "find_p_class_1 b k = Inl e \<Longrightarrow> is_Exception (exc_cls e)"
  by (auto simp: find_p_class_1_def none_not_subscriptable_def key_error_def
      split: option.splits if_splits)

lemma bind_exc_Inl: "bind_exc m f = Inl e \<longleftrightarrow> m = Inl e \<or> (\<exists>v. m = Inr v \<and> f v = Inl e)"
  by (cases m) (auto simp: bind_exc_def)

lemma bind_exc_Inr: "bind_exc m f = Inr r \<longleftrightarrow> (\<exists>v. m = Inr v \<and> f v = Inr r)"
  by (cases m) (auto simp: bind_exc_def)

lemma extract_try_exc: "extract_try s b = Inl e \<Longrightarrow> is_Exception (exc_cls e)"
  unfolding extract_try_def read_title_def read_price_def read_availability_def
    read_rating_def read_book_url_def
  by (auto simp: bind_exc_Inl dest: h3_a_attr_exc find_p_text_exc find_p_class_1_exc)

lemma extract_try_keys:
  "extract_try s b = Inr d \<Longrightarrow> map fst d = [''Title'', ''Price'', ''Availability'', ''Rating'', ''URL'']"
  unfolding extract_try_def by (auto simp: bind_exc_Inr)

lemma extract_try_nonempty: "extract_try s b = Inr d \<Longrightarrow> d \<noteq> []"
  using extract_try_keys by fastforce

lemma extract_book_details_eq:
  "extract_book_details s b =
     Inr (case extract_try s b of Inr d \<Rightarrow> d | Inl e \<Rightarrow> [], book_logged s b)"
  by (auto simp: extract_book_details_def book_logged_def dest: extract_try_exc split: sum.splits)

lemma extract_loop_eq:
  "extract_loop s books st =
     (None, \<lparr>trace = trace st @ extract_logged s books,
          all_books = all_books st @ extract_records s books\<rparr>)"
proof (induction books arbitrary: st)
  case Nil
  then show ?case by (simp add: extract_records_def extract_logged_def)
next
  case (Cons b books)
  show ?case
    by (cases "extract_try s b")
      (auto simp: Cons extract_book_details_eq extract_records_def extract_logged_def
        book_records_def book_logged_def emit_def dest: extract_try_nonempty)
qed

lemma scrape_page_eq:
  "scrape_page env s page st =
     (page_ctl env s page,
      \<lparr>trace = trace st @ page_events env s page,
       all_books = all_books st @ page_records env s page\<rparr>)"
  by (cases "fetch_books env s page")
    (simp_all add: scrape_page_def page_ctl_def page_events_def page_records_def
      page_request_def emit_def extract_loop_eq Let_def extract_records_def)

lemma scrape_loop_eq:
  "scrape_loop env s pages st =
     (loop_exit env s pages,
      \<lparr>trace = trace st @ concat (map (page_events env s) (visited env s pages)),
       all_books = all_books st @ concat (map (page_records env s) (visited env s pages))\<rparr>)"
proof (induction pages arbitrary: st)
  case Nil
  show ?case by simp
next
  case (Cons page pages)
  show ?case
    by (cases "page_ctl env s page") (simp_all add: scrape_page_eq Cons)
qed

lemma extract_logged_no_get: "filter is_HttpGet (extract_logged s books) = []"
  by (induction books) (auto simp: extract_logged_def book_logged_def split: sum.splits)

lemma page_events_gets: "filter is_HttpGet (page_events env s page) = [page_request s page]"
  by (auto simp: page_events_def page_request_def extract_logged_no_get split: sum.splits)

lemma concat_page_events_gets:
  "filter is_HttpGet (concat (map (page_events env s) ps)) = map (page_request s) ps"
  by (induction ps) (simp_all add: page_events_gets)

lemma scrape_books_eq:
  "scrape_books env s N =
     (case loop_exit env s [1..N] of
        None \<Rightarrow> Inr (concat (map (page_records env s) (visited env s [1..N])))
      | Some e \<Rightarrow> Inl e,
      concat (map (page_events env s) (visited env s [1..N])))"
  by (simp add: scrape_books_def scrape_loop_eq py_range_def split: option.splits)





lemma digit_val_digit_char_all: "\<forall>d\<in>set [0..<10]. digit_val (digit_char d) = d"
  by code_simp

lemma digit_val_digit_char: "d < 10 \<Longrightarrow> digit_val (digit_char d) = d"
  using digit_val_digit_char_all by simp

lemma nat_of_str_str_nat: "nat_of_str (str_nat n) = n"
proof (induction n rule: str_nat.induct)
  case (1 n)
  show ?case
  proof (cases "n < 10")
    case True
    then show ?thesis
      by (subst str_nat.simps) (simp add: nat_of_str_def digit_val_digit_char)
  next
    case False
    then have "nat_of_str (str_nat (n div 10)) = n div 10" using 1 by simp
    then show ?thesis using False
      by (subst str_nat.simps) (simp add: nat_of_str_def digit_val_digit_char)
  qed
qed

lemma str_nat_inj: "str_nat m = str_nat n \<Longrightarrow> m = n"
  by (metis nat_of_str_str_nat)

lemma str_int_inj_pos: "0 \<le> p \<Longrightarrow> 0 \<le> q \<Longrightarrow> str_int p = str_int q \<Longrightarrow> p = q"
  by (auto simp: str_int_def dest: str_nat_inj)

lemma page_url_inj: "1 \<le> p \<Longrightarrow> 1 \<le> q \<Longrightarrow> page_url s p = page_url s q \<Longrightarrow> p = q"
proof -
  assume pq: "1 \<le> p" "1 \<le> q" and eq: "page_url s p = page_url s q"
  show "p = q"
  proof (cases "1 < p")
    case False
    then show ?thesis using pq eq by (cases "1 < q") (simp_all add: page_url_def)
  next
    case True
    show ?thesis
    proof (cases "1 < q")
      case False
      then show ?thesis using pq eq True by (simp add: page_url_def)
    next
      case q: True
      from eq True q have "str_int p = str_int q" by (simp add: page_url_def)
      then show ?thesis using pq by (intro str_int_inj_pos) simp_all
    qed
  qed
qed

lemma page_url_distinct: "distinct (map (page_url s) [1..K])"
  by (auto simp: distinct_map inj_on_def dest: page_url_inj)

lemma loop_exit_not_request:
  "loop_exit env s ps = Some e \<Longrightarrow> \<not> is_RequestException (exc_cls e)"
  by (induction ps) (auto simp: page_ctl_def split: loop_ctl.splits sum.splits if_splits)

lemma loop_exit_skip:
  "page_ctl env s p = Next \<Longrightarrow> loop_exit env s (qs @ p # ps) = loop_exit env s (qs @ ps)"
  by (induction qs) (auto split: loop_ctl.splits)

lemma visited_skip:
  "page_ctl env s p = Next \<Longrightarrow> page_records env s p = [] \<Longrightarrow>
   concat (map (page_records env s) (visited env s (qs @ p # ps))) =
   concat (map (page_records env s) (visited env s (qs @ ps)))"
  by (induction qs) auto

lemma fetch_fails_iff:
  "fetch_fails env s p \<longleftrightarrow> (\<exists>e. fetch_books env s p = Inl e \<and> is_RequestException (exc_cls e))"
  by (auto simp: fetch_fails_def split: sum.splits)

lemma field_read_fails_iff: "field_read_fails s b \<longleftrightarrow> isl (extract_try s b)"
  unfolding field_read_fails_def extract_try_def
  by (cases "read_title b"; cases "read_price b"; cases "read_availability b";
      cases "read_rating b"; cases "read_book_url s b") (simp_all add: bind_exc_def)

lemma book_records_fails: "field_read_fails s b \<Longrightarrow> book_records s b = []"
  by (auto simp: field_read_fails_iff book_records_def split: sum.splits)

lemma extract_records_append:
  "extract_records s (xs @ ys) = extract_records s xs @ extract_records s ys"
  by (simp add: extract_records_def)

lemma extract_records_Cons:
  "extract_records s (b # ys) = book_records s b @ extract_records s ys"
  by (simp add: extract_records_def)

lemma book_records_mem:
  "r \<in> set (book_records s b) \<Longrightarrow> extract_try s b = Inr r"
  by (auto simp: book_records_def split: sum.splits)

lemma page_records_mem:
  "r \<in> set (page_records env s p) \<Longrightarrow> \<exists>b. extract_try s b = Inr r"
  by (auto simp: page_records_def extract_records_def dest: book_records_mem split: sum.splits)

lemma extract_try_fields:
  "extract_try s b = Inr r \<Longrightarrow>
     \<exists>title price availability rating url.
       read_title b = Inr title \<and> read_price b = Inr price
       \<and> read_availability b = Inr availability \<and> read_rating b = Inr rating
       \<and> read_book_url s b = Inr url
       \<and> r = [(''Title'', title), (''Price'', price), (''Availability'', availability),
              (''Rating'', rating), (''URL'', url)]"
  unfolding extract_try_def by (auto simp: bind_exc_Inr)

lemma visited_upto_prefix:
  "\<exists>K. a - 1 \<le> K \<and> K \<le> max N (a - 1) \<and> visited env s [a..N] = [a..K]"
proof (induction a N rule: upto.induct)
  case (1 a N)
  show ?case
  proof (cases "a \<le> N")
    case False
    then have "visited env s [a..N] = [a..a - 1]" by simp
    then show ?thesis by (intro exI [of _ "a - 1"]) simp
  next
    case True
    have rec: "[a..N] = a # [a + 1..N]" using True by (simp add: upto_rec1)
    show ?thesis
    proof (cases "page_ctl env s a = Next")
      case False
      then have "visited env s [a..N] = [a..a]" using rec by simp
      then show ?thesis using True by (intro exI [of _ a]) simp
    next
      case ctl: True
      from 1 [OF True] obtain K where K: "a \<le> K" "K \<le> max N a"
        "visited env s [a + 1..N] = [a + 1..K]" by auto
      have "visited env s [a..N] = a # [a + 1..K]" using rec ctl K(3) by simp
      also have "\<dots> = [a..K]" using K(1) by (simp add: upto_rec1)
      finally show ?thesis using K(1,2) True by (intro exI [of _ K]) simp
    qed
  qed
qed

lemma sorted_wrt_upto: "sorted_wrt (<) [a..K]"
  by (induction a K rule: upto.induct) (subst upto.simps, auto)

lemma visited_all_fail:
  "\<forall>p\<in>set ps. fetch_fails env s p \<Longrightarrow>
     visited env s ps = ps \<and> loop_exit env s ps = None
     \<and> concat (map (page_records env s) ps) = []"
  by (induction ps)
    (auto simp: fetch_fails_iff page_ctl_def page_records_def)

lemma fetch_fails_cases:
  "fetch_fails env s p \<longleftrightarrow>
     (\<exists>e. requests_get env (page_url s p) (headers s) 10 = Inl e
          \<and> is_RequestException (exc_cls e))
     \<or> (\<exists>r e. requests_get env (page_url s p) (headers s) 10 = Inr r
          \<and> raise_for_status env r = Some e \<and> is_RequestException (exc_cls e))"
  by (cases "requests_get env (page_url s p) (headers s) 10")
    (auto simp: fetch_fails_def fetch_books_def bind_exc_def split: option.splits)

lemma visited_ctl_cong:
  "(\<And>p. page_ctl env s p = page_ctl env' s p) \<Longrightarrow>
     visited env s ps = visited env' s ps \<and> loop_exit env s ps = loop_exit env' s ps"
  by (induction ps) (auto split: loop_ctl.splits)

lemma scrape_books_fetch_cong:
  assumes "\<And>p. fetch_books env s p = fetch_books env' s p"
  shows "scrape_books env s N = scrape_books env' s N"
proof -
  have e: "page_events env s = page_events env' s" "page_records env s = page_records env' s"
    using assms by (auto simp: page_events_def page_records_def fun_eq_iff)
  have "\<And>p. page_ctl env s p = page_ctl env' s p"
    using assms by (simp add: page_ctl_def)
  from visited_ctl_cong [OF this, of "[1..N]"]
  have v: "visited env s [1..N] = visited env' s [1..N]"
    "loop_exit env s [1..N] = loop_exit env' s [1..N]" by simp_all
  show ?thesis unfolding scrape_books_eq e v ..
qed

section \<open>The claims\<close>




text \<open>
  Claim C2. The claim asks for the one-second wait once per page iteration, also after a
  fetch that raised. Run on the site \<open>flaky\<close> with \<open>max_pages = 2\<close>: page 1 times out,
  and the request for page 2 follows the error log entry with no \<open>Sleep\<close> in between;
  the only wait is the one after page 2.
\<close>

theorem no_delay_after_failed_fetch:
  "snd (scrape_books flaky (init ''http://b'') 2) =
     [HttpGet ''http://b'' [(''User-Agent'', user_agent)] 10,
      LogError ''Error scraping page 1: timed out'',
      HttpGet ''http://b/catalogue/page-2.html'' [(''User-Agent'', user_agent)] 10,
      Sleep 1]"
  by code_simp

text \<open>
  Claim C3, as stated. On the site \<open>statuses\<close> the request for page 2 is answered with
  status 304, which is not a 2xx status; the status check does not raise for it, the page
  is parsed, and its record is in the result.
\<close>

theorem non_2xx_status_counterexample:
  "requests_get statuses (page_url (init ''http://b'') 2) (headers (init ''http://b'')) 10 =
     Inr \<lparr>status_code = 304, resp_text = ''one''\<rparr>
   \<and> raise_for_status statuses \<lparr>status_code = 304, resp_text = ''one''\<rparr> = None
   \<and> page_records statuses (init ''http://b'') 2 =
       [[(''Title'', ''Emma''), (''Price'', ''51.77''), (''Availability'', ''In stock''),
         (''Rating'', ''Three''), (''URL'', ''http://b/emma.html'')]]
   \<and> fst (scrape_books statuses (init ''http://b'') 2) =
       Inr [[(''Title'', ''Emma''), (''Price'', ''51.77''), (''Availability'', ''In stock''),
             (''Rating'', ''Three''), (''URL'', ''http://b/emma.html'')]]"
  by code_simp

text \<open>
  Claim C3, amended. When the fetch of page \<open>p\<close> fails, that is, when \<open>requests.get\<close>
  raises a \<open>RequestException\<close> (a timeout, a network error) or returns a response for
  which \<open>raise_for_status\<close> raises one (the library does so for the 4xx and 5xx
  statuses, not for every non-2xx status), the iteration logs the error and goes on to
  the next page with \<open>all_books\<close> unchanged; the loop over a page list that contains
  \<open>p\<close> ends the same way and collects the same records as the loop over the list
  without \<open>p\<close>; and no exception that leaves \<open>scrape_books\<close> is a
  \<open>RequestException\<close>.
\<close>

theorem failed_fetch_skips_page:
  assumes "(\<exists>e. requests_get env (page_url s p) (headers s) 10 = Inl e
              \<and> is_RequestException (exc_cls e))
         \<or> (\<exists>r e. requests_get env (page_url s p) (headers s) 10 = Inr r
              \<and> raise_for_status env r = Some e \<and> is_RequestException (exc_cls e))"
  shows "(\<exists>e. fetch_books env s p = Inl e \<and>
           scrape_page env s p st =
             (Next, st\<lparr>trace := trace st @ [page_request s p,
                LogError (''Error scraping page '' @ str_int p @ '': '' @ exc_msg e)]\<rparr>))
    \<and> all_books (snd (scrape_page env s p st)) = all_books st
    \<and> scrape_loop env s (p # ps) st = scrape_loop env s ps (snd (scrape_page env s p st))
    \<and> fst (scrape_loop env s (qs @ p # ps) st) = fst (scrape_loop env s (qs @ ps) st)
    \<and> all_books (snd (scrape_loop env s (qs @ p # ps) st)) =
        all_books (snd (scrape_loop env s (qs @ ps) st))
    \<and> (\<forall>e'. fst (scrape_books env s N) = Inl e' \<longrightarrow> \<not> is_RequestException (exc_cls e'))"
proof -
  from assms have "fetch_fails env s p" by (simp add: fetch_fails_cases)
  then obtain e where e: "fetch_books env s p = Inl e" "is_RequestException (exc_cls e)"
    by (auto simp: fetch_fails_iff)
  have ctl: "page_ctl env s p = Next" using e by (simp add: page_ctl_def)
  have recs: "page_records env s p = []" using e by (simp add: page_records_def)
  have a: "scrape_page env s p st =
             (Next, st\<lparr>trace := trace st @ [page_request s p,
                LogError (''Error scraping page '' @ str_int p @ '': '' @ exc_msg e)]\<rparr>)"
    using e by (simp add: scrape_page_eq page_ctl_def page_events_def page_records_def)
  have b: "all_books (snd (scrape_page env s p st)) = all_books st"
    by (simp add: a)
  have c: "scrape_loop env s (p # ps) st = scrape_loop env s ps (snd (scrape_page env s p st))"
    by (simp add: a)
  have d: "fst (scrape_loop env s (qs @ p # ps) st) = fst (scrape_loop env s (qs @ ps) st)"
    by (simp add: scrape_loop_eq loop_exit_skip [OF ctl])
  have f: "all_books (snd (scrape_loop env s (qs @ p # ps) st)) =
        all_books (snd (scrape_loop env s (qs @ ps) st))"
    by (simp add: scrape_loop_eq visited_skip [OF ctl recs])
  have g: "\<forall>e'. fst (scrape_books env s N) = Inl e' \<longrightarrow> \<not> is_RequestException (exc_cls e')"
    by (auto simp: scrape_books_eq dest: loop_exit_not_request split: option.splits)
  from e(1) a b c d f g show ?thesis by blast
qed

theorem failed_fetch_skips_page_witness:
  "requests_get shop (page_url (init ''http://b'') 2) (headers (init ''http://b'')) 10 =
     Inl (PyExc Timeout ''timed out'')
   \<and> all_books (snd (scrape_page shop (init ''http://b'') 2 \<lparr>trace = [], all_books = []\<rparr>)) = []
   \<and> all_books (snd (scrape_loop shop (init ''http://b'') ([1] @ 2 # [3]) \<lparr>trace = [], all_books = []\<rparr>)) =
       all_books (snd (scrape_loop shop (init ''http://b'') ([1] @ [3]) \<lparr>trace = [], all_books = []\<rparr>))
   \<and> requests_get statuses (page_url (init ''http://b'') 1) (headers (init ''http://b'')) 10 =
       Inr \<lparr>status_code = 404, resp_text = ''one''\<rparr>
   \<and> raise_for_status statuses \<lparr>status_code = 404, resp_text = ''one''\<rparr> = Some (http_error 404)
   \<and> all_books (snd (scrape_page statuses (init ''http://b'') 1 \<lparr>trace = [], all_books = []\<rparr>)) = []
   \<and> fst (scrape_page statuses (init ''http://b'') 1 \<lparr>trace = [], all_books = []\<rparr>) = Next"
proof -
  have g: "requests_get shop (page_url (init ''http://b'') 2) (headers (init ''http://b'')) 10 =
     Inl (PyExc Timeout ''timed out'')" by code_simp
  have h: "(\<exists>e. requests_get shop (page_url (init ''http://b'') 2) (headers (init ''http://b'')) 10 = Inl e
              \<and> is_RequestException (exc_cls e))
         \<or> (\<exists>r e. requests_get shop (page_url (init ''http://b'') 2) (headers (init ''http://b'')) 10 = Inr r
              \<and> raise_for_status shop r = Some e \<and> is_RequestException (exc_cls e))"
    unfolding g by simp
  note t = failed_fetch_skips_page [OF h, of "\<lparr>trace = [], all_books = []\<rparr>" "[3]" "[1]" 5]
  have g1: "requests_get statuses (page_url (init ''http://b'') 1) (headers (init ''http://b'')) 10 =
       Inr \<lparr>status_code = 404, resp_text = ''one''\<rparr>" by code_simp
  have g2: "raise_for_status statuses \<lparr>status_code = 404, resp_text = ''one''\<rparr> = Some (http_error 404)"
    by code_simp
  have g3: "is_RequestException (exc_cls (http_error 404))" by (simp add: http_error_def)
  have h': "(\<exists>e. requests_get statuses (page_url (init ''http://b'') 1) (headers (init ''http://b'')) 10 = Inl e
              \<and> is_RequestException (exc_cls e))
         \<or> (\<exists>r e. requests_get statuses (page_url (init ''http://b'') 1) (headers (init ''http://b'')) 10 = Inr r
              \<and> raise_for_status statuses r = Some e \<and> is_RequestException (exc_cls e))"
    unfolding g1 using g2 g3 by blast
  note t' = failed_fetch_skips_page [OF h', of "\<lparr>trace = [], all_books = []\<rparr>" "[]" "[]" 2]
  from t' have n: "fst (scrape_page statuses (init ''http://b'') 1 \<lparr>trace = [], all_books = []\<rparr>) = Next"
    by auto
  from g t g1 g2 t' n show ?thesis by simp
qed

text \<open>
  Claim C4. For an element \<open>b\<close> on which reading one of the five fields raises,
  \<open>_extract_book_details\<close> returns \<open>{}\<close> and a logged warning instead of raising; the
  loop over the elements \<open>xs @ b # ys\<close> runs to its end and collects exactly the
  records of \<open>xs\<close> and of \<open>ys\<close>, as it does for \<open>xs @ ys\<close>; and a page that contains
  \<open>b\<close> is processed to the end, the crawl going on to the next page.
\<close>

theorem bad_item_is_dropped_alone:
  assumes "field_read_fails s b"
  shows "(\<exists>w. extract_book_details s b = Inr ([], [LogWarning w]))
    \<and> (\<exists>st1 st2. extract_loop s (xs @ b # ys) st = (None, st1)
          \<and> extract_loop s (xs @ ys) st = (None, st2)
          \<and> all_books st1 = all_books st2
          \<and> all_books st1 = all_books st @ extract_records s xs @ extract_records s ys)
    \<and> (fetch_books env s p = Inr (xs @ b # ys) \<longrightarrow>
          fst (scrape_page env s p st) = Next
          \<and> all_books (snd (scrape_page env s p st)) =
              all_books st @ extract_records s xs @ extract_records s ys)"
proof -
  from assms obtain e where e: "extract_try s b = Inl e"
    by (cases "extract_try s b") (auto simp: field_read_fails_iff)
  have a: "\<exists>w. extract_book_details s b = Inr ([], [LogWarning w])"
    using e by (simp add: extract_book_details_eq book_logged_def)
  have r0: "extract_records s (b # ys) = extract_records s ys"
    using assms by (simp add: extract_records_Cons book_records_fails)
  have r: "extract_records s (xs @ b # ys) = extract_records s xs @ extract_records s ys"
    by (simp add: extract_records_append r0)
  have b: "\<exists>st1 st2. extract_loop s (xs @ b # ys) st = (None, st1)
          \<and> extract_loop s (xs @ ys) st = (None, st2)
          \<and> all_books st1 = all_books st2
          \<and> all_books st1 = all_books st @ extract_records s xs @ extract_records s ys"
    by (simp add: extract_loop_eq r0 extract_records_append)
  have c: "fetch_books env s p = Inr (xs @ b # ys) \<longrightarrow>
          fst (scrape_page env s p st) = Next
          \<and> all_books (snd (scrape_page env s p st)) =
              all_books st @ extract_records s xs @ extract_records s ys"
    by (simp add: scrape_page_eq page_ctl_def page_records_def r)
  from a b c show ?thesis by blast
qed

theorem bad_item_is_dropped_alone_witness:
  "field_read_fails (init ''http://b'') (book_with_price None)
   \<and> (\<exists>st1. extract_loop (init ''http://b'')
          ([book_with_price (Some ''$51.77'')] @ book_with_price None # [book_with_price (Some ''9.99'')])
          \<lparr>trace = [], all_books = []\<rparr> = (None, st1)
        \<and> all_books st1 =
            extract_records (init ''http://b'') [book_with_price (Some ''$51.77'')]
            @ extract_records (init ''http://b'') [book_with_price (Some ''9.99'')])"
proof -
  have h: "field_read_fails (init ''http://b'') (book_with_price None)" by code_simp
  note t = bad_item_is_dropped_alone [OF h, of "[book_with_price (Some ''$51.77'')]"
      "[book_with_price (Some ''9.99'')]" "\<lparr>trace = [], all_books = []\<rparr>"]
  from h t show ?thesis by auto
qed

text \<open>
  Claim C5. When a page is fetched, has at least one element, and a field read fails on
  every element, the iteration appends no record, logs the warnings, waits and goes on to
  the next page. An iteration breaks out of the page loop exactly when the fetched page
  has no element: the test is on the elements selected, not on the records extracted.
\<close>

theorem page_of_bad_items_does_not_stop_crawl:
  assumes "fetch_books env s p = Inr books" and "books \<noteq> []"
    and "\<forall>b\<in>set books. field_read_fails s b"
  shows "fst (scrape_page env s p st) = Next
    \<and> all_books (snd (scrape_page env s p st)) = all_books st
    \<and> trace (snd (scrape_page env s p st)) =
        trace st @ [page_request s p] @ extract_logged s books @ [Sleep 1]
    \<and> scrape_loop env s (p # ps) st = scrape_loop env s ps (snd (scrape_page env s p st))
    \<and> (\<forall>q. fst (scrape_page env s q st) = Break \<longleftrightarrow> is_empty_page env s q)"
proof -
  have r: "extract_records s books = []"
    using assms(3) by (induction books) (simp_all add: extract_records_def book_records_fails)
  have a: "scrape_page env s p st =
      (Next, \<lparr>trace = trace st @ [page_request s p] @ extract_logged s books @ [Sleep 1],
              all_books = all_books st\<rparr>)"
    using assms(1,2) by (simp add: scrape_page_eq page_ctl_def page_events_def page_records_def r)
  have b: "\<forall>q. fst (scrape_page env s q st) = Break \<longleftrightarrow> is_empty_page env s q"
    by (auto simp: scrape_page_eq page_ctl_def is_empty_page_def split: sum.splits if_splits)
  show ?thesis using b by (simp add: a)
qed

theorem page_of_bad_items_does_not_stop_crawl_witness:
  "fetch_books shop (init ''http://b'') 3 = Inr [book_with_price None]
   \<and> field_read_fails (init ''http://b'') (book_with_price None)
   \<and> fst (scrape_page shop (init ''http://b'') 3 \<lparr>trace = [], all_books = []\<rparr>) = Next
   \<and> all_books (snd (scrape_page shop (init ''http://b'') 3 \<lparr>trace = [], all_books = []\<rparr>)) = []"
proof -
  have h1: "fetch_books shop (init ''http://b'') 3 = Inr [book_with_price None]"
    by (simp add: fetch_books_def shop_def site_env_def page_url_def init_def str_int_def
        str_nat.simps digit_char_def bind_exc_def ok_page_def)
  have h2: "[book_with_price None] \<noteq> []" by simp
  have f: "field_read_fails (init ''http://b'') (book_with_price None)" by code_simp
  then have h3: "\<forall>b\<in>set [book_with_price None]. field_read_fails (init ''http://b'') b" by simp
  note t = page_of_bad_items_does_not_stop_crawl [OF h1 h2 h3, of "\<lparr>trace = [], all_books = []\<rparr>"]
  from h1 f t show ?thesis by simp
qed

text \<open>
  Claim C6. Every record in the list returned by \<open>scrape_books\<close> has exactly the keys
  \<open>Title\<close>, \<open>Price\<close>, \<open>Availability\<close>, \<open>Rating\<close>, \<open>URL\<close>, in this order, each with
  a string value, and is what the five field reads returned for one element on which no
  read failed.
\<close>

theorem crawl_result_records_fully_populated:
  assumes "fst (scrape_books env s N) = Inr books" and "r \<in> set books"
  shows "map fst r = [''Title'', ''Price'', ''Availability'', ''Rating'', ''URL'']
    \<and> (\<exists>b title price availability rating url.
          read_title b = Inr title \<and> read_price b = Inr price
          \<and> read_availability b = Inr availability \<and> read_rating b = Inr rating
          \<and> read_book_url s b = Inr url
          \<and> \<not> field_read_fails s b
          \<and> r = [(''Title'', title), (''Price'', price), (''Availability'', availability),
                 (''Rating'', rating), (''URL'', url)])"
proof -
  from assms(1) have "books = concat (map (page_records env s) (visited env s [1..N]))"
    by (auto simp: scrape_books_eq split: option.splits)
  with assms(2) obtain p where "r \<in> set (page_records env s p)" by auto
  then obtain b where b: "extract_try s b = Inr r" by (auto dest: page_records_mem)
  have nf: "\<not> field_read_fails s b" using b by (simp add: field_read_fails_iff)
  from extract_try_fields [OF b] extract_try_keys [OF b] nf show ?thesis by blast
qed

theorem crawl_result_records_fully_populated_witness:
  "fst (scrape_books shop (init ''http://b'') 5) =
     Inr [[(''Title'', ''Emma''), (''Price'', ''51.77''), (''Availability'', ''In stock''),
           (''Rating'', ''Three''), (''URL'', ''http://b/emma.html'')]]
   \<and> map fst [(''Title'', ''Emma''), (''Price'', ''51.77''), (''Availability'', ''In stock''),
           (''Rating'', ''Three''), (''URL'', ''http://b/emma.html'')] =
       [''Title'', ''Price'', ''Availability'', ''Rating'', ''URL'']"
proof -
  have h1: "fst (scrape_books shop (init ''http://b'') 5) =
     Inr [[(''Title'', ''Emma''), (''Price'', ''51.77''), (''Availability'', ''In stock''),
           (''Rating'', ''Three''), (''URL'', ''http://b/emma.html'')]]" by code_simp
  have h2: "[(''Title'', ''Emma''), (''Price'', ''51.77''), (''Availability'', ''In stock''),
           (''Rating'', ''Three''), (''URL'', ''http://b/emma.html'')]
     \<in> set [[(''Title'', ''Emma''), (''Price'', ''51.77''), (''Availability'', ''In stock''),
           (''Rating'', ''Three''), (''URL'', ''http://b/emma.html'')]]" by simp
  from crawl_result_records_fully_populated [OF h1 h2] h1 show ?thesis by blast
qed

text \<open>
  Claim C7. When \<open>scrape_books\<close> returns, the requests it made are those of the pages
  \<open>1..K\<close> for some \<open>K \<le> max N 0\<close>, in strictly increasing page order and with
  pairwise different addresses; the returned list is the concatenation, in page order, of
  each fetched page's records in element order, each element giving at most one record;
  nothing is removed: its length is the sum of the pages' record counts.
\<close>

theorem crawl_order_preserved:
  assumes "fst (scrape_books env s N) = Inr books"
  shows "\<exists>K. K \<le> max N 0
    \<and> filter is_HttpGet (snd (scrape_books env s N)) = map (page_request s) [1..K]
    \<and> sorted_wrt (<) [1..K]
    \<and> distinct (map (page_url s) [1..K])
    \<and> books = concat (map (\<lambda>p. case fetch_books env s p of
                                   Inl e \<Rightarrow> []
                                 | Inr elems \<Rightarrow> concat (map (book_records s) elems)) [1..K])
    \<and> length books = sum_list (map (\<lambda>p. length (page_records env s p)) [1..K])"
proof -
  from visited_upto_prefix [of 1 N env s] obtain K where
    K: "K \<le> max N 0" "visited env s [1..N] = [1..K]" by auto
  have pr: "page_records env s = (\<lambda>p. case fetch_books env s p of
      Inl e \<Rightarrow> [] | Inr elems \<Rightarrow> concat (map (book_records s) elems))"
    by (rule ext) (simp add: page_records_def extract_records_def split: sum.splits)
  have b: "books = concat (map (page_records env s) [1..K])"
    using assms K(2) by (auto simp: scrape_books_eq split: option.splits)
  have g: "filter is_HttpGet (snd (scrape_books env s N)) = map (page_request s) [1..K]"
    by (simp add: scrape_books_eq K(2) concat_page_events_gets)
  have l: "length books = sum_list (map (\<lambda>p. length (page_records env s p)) [1..K])"
    unfolding b by (simp add: length_concat comp_def)
  from b have b': "books = concat (map (\<lambda>p. case fetch_books env s p of
      Inl e \<Rightarrow> [] | Inr elems \<Rightarrow> concat (map (book_records s) elems)) [1..K])"
    unfolding pr .
  from K(1) g sorted_wrt_upto [of 1 K] page_url_distinct [of s K] b' l show ?thesis by blast
qed

theorem crawl_order_preserved_witness:
  "fst (scrape_books twins (init ''http://b'') 2) =
     Inr [[(''Title'', ''Emma''), (''Price'', ''51.77''), (''Availability'', ''In stock''),
           (''Rating'', ''Three''), (''URL'', ''http://b/emma.html'')],
          [(''Title'', ''Emma''), (''Price'', ''51.77''), (''Availability'', ''In stock''),
           (''Rating'', ''Three''), (''URL'', ''http://b/emma.html'')]]
   \<and> (\<exists>K. K \<le> 2
        \<and> filter is_HttpGet (snd (scrape_books twins (init ''http://b'') 2)) =
            map (page_request (init ''http://b'')) [1..K]
        \<and> distinct (map (page_url (init ''http://b'')) [1..K])
        \<and> sum_list (map (\<lambda>p. length (page_records twins (init ''http://b'') p)) [1..K]) = 2)"
proof -
  have h: "fst (scrape_books twins (init ''http://b'') 2) =
     Inr [[(''Title'', ''Emma''), (''Price'', ''51.77''), (''Availability'', ''In stock''),
           (''Rating'', ''Three''), (''URL'', ''http://b/emma.html'')],
          [(''Title'', ''Emma''), (''Price'', ''51.77''), (''Availability'', ''In stock''),
           (''Rating'', ''Three''), (''URL'', ''http://b/emma.html'')]]" by code_simp
  from crawl_order_preserved [OF h] obtain K where
    "K \<le> max 2 0" "filter is_HttpGet (snd (scrape_books twins (init ''http://b'') 2)) =
            map (page_request (init ''http://b'')) [1..K]"
    "distinct (map (page_url (init ''http://b'')) [1..K])"
    "length [[(''Title'', ''Emma''), (''Price'', ''51.77''), (''Availability'', ''In stock''),
           (''Rating'', ''Three''), (''URL'', ''http://b/emma.html'')],
          [(''Title'', ''Emma''), (''Price'', ''51.77''), (''Availability'', ''In stock''),
           (''Rating'', ''Three''), (''URL'', ''http://b/emma.html'')]] = sum_list (map (\<lambda>p. length (page_records twins (init ''http://b'') p)) [1..K])"
    by blast
  then show ?thesis using h by auto
qed

text \<open>
  Claim C8. The claim asks for the price text with its leading currency symbol stripped.
  Line 81 takes \<open>.text[1:]\<close>, with the comment that this removes the currency symbol,
  and never looks at the character it drops. For the price text \<open>9.99\<close>, which has no
  currency symbol, the stored \<open>Price\<close> is \<open>.99\<close>. For a price text of the two
  characters \<open>0xC2\<close>, \<open>0xA3\<close> (the pound sign) followed by \<open>51.77\<close>, as in the
  source's own comment, the stored \<open>Price\<close> still begins with the pound sign.
\<close>

theorem price_first_character_dropped_unchecked:
  "find_p_text (book_with_price (Some ''9.99'')) ''price_color'' = Inr ''9.99''
   \<and> extract_book_details (init ''http://b'') (book_with_price (Some ''9.99'')) =
       Inr ([(''Title'', ''Emma''), (''Price'', ''.99''), (''Availability'', ''In stock''),
             (''Rating'', ''Three''), (''URL'', ''http://b/emma.html'')], [])
   \<and> strip_leading_currency ''9.99'' = ''9.99''
   \<and> extract_book_details (init ''http://b'')
         (book_with_price (Some (CHR 0xC2 # CHR 0xA3 # ''51.77''))) =
       Inr ([(''Title'', ''Emma''), (''Price'', CHR 0xA3 # ''51.77''),
             (''Availability'', ''In stock''), (''Rating'', ''Three''),
             (''URL'', ''http://b/emma.html'')], [])
   \<and> is_currency_symbol (CHR 0xA3)
   \<and> strip_leading_currency (CHR 0xA3 # ''51.77'') = ''51.77''"
  by code_simp

text \<open>
  Claim C9, as stated. On the site \<open>flaky\<close> the fetch of page 1 fails, and with
  \<open>max_pages = 2\<close> the crawl goes on to page 2 and returns its record: the result is
  not empty.
\<close>

theorem first_page_unreachable_counterexample:
  "fetch_fails flaky (init ''http://b'') 1
   \<and> fst (scrape_books flaky (init ''http://b'') 2) =
       Inr [[(''Title'', ''Emma''), (''Price'', ''51.77''), (''Availability'', ''In stock''),
             (''Rating'', ''Three''), (''URL'', ''http://b/emma.html'')]]
   \<and> fst (scrape_books flaky (init ''http://b'') 2) \<noteq> Inr []"
  by code_simp

text \<open>
  Claim C9, amended. With \<open>max_pages = 0\<close> \<open>scrape_books\<close> makes no request and
  returns the empty list; when the fetch of every page in \<open>1..max_pages\<close> fails (for
  \<open>max_pages = 1\<close>: when page 1 is unreachable) it returns the empty list; and
  \<open>save_to_csv\<close> with an empty list logs the warning \<open>No data to save!\<close>, returns, and
  leaves every file as it was.
\<close>

theorem empty_crawl_and_nothing_saved:
  "scrape_books env s 0 = (Inr [], [])
   \<and> ((\<forall>p\<in>{1..N}. fetch_fails env s p) \<longrightarrow> fst (scrape_books env s N) = Inr [])
   \<and> save_to_csv fe [] filename io =
       (None, io\<lparr>logged := logged io @ [LogWarning ''No data to save!'']\<rparr>)
   \<and> files (snd (save_to_csv fe [] filename io)) = files io"
proof -
  have a: "scrape_books env s 0 = (Inr [], [])" by (simp add: scrape_books_eq)
  have b: "(\<forall>p\<in>{1..N}. fetch_fails env s p) \<longrightarrow> fst (scrape_books env s N) = Inr []"
  proof
    assume "\<forall>p\<in>{1..N}. fetch_fails env s p"
    then have "\<forall>p\<in>set [1..N]. fetch_fails env s p" by simp
    from visited_all_fail [OF this] show "fst (scrape_books env s N) = Inr []"
      by (simp add: scrape_books_eq)
  qed
  have c: "save_to_csv fe [] filename io =
       (None, io\<lparr>logged := logged io @ [LogWarning ''No data to save!'']\<rparr>)"
    by (simp add: save_to_csv_def)
  have d: "files (snd (save_to_csv fe [] filename io)) = files io" by (simp add: c)
  from a b c d show ?thesis by blast
qed

theorem empty_crawl_and_nothing_saved_witness:
  "fetch_fails offline (init ''http://b'') 1
   \<and> fetch_fails offline (init ''http://b'') 2
   \<and> fetch_fails offline (init ''http://b'') 3
   \<and> fst (scrape_books offline (init ''http://b'') 3) = Inr []
   \<and> fetch_fails flaky (init ''http://b'') 1
   \<and> fst (scrape_books flaky (init ''http://b'') 1) = Inr []"
proof -
  have h: "\<forall>p\<in>{1..3}. fetch_fails offline (init ''http://b'') p"
    unfolding set_upto [symmetric] by code_simp
  have h3: "fetch_fails offline (init ''http://b'') 1" "fetch_fails offline (init ''http://b'') 2"
    "fetch_fails offline (init ''http://b'') 3"
    using h by simp_all
  have g: "fetch_fails flaky (init ''http://b'') 1" by code_simp
  then have g1: "\<forall>p\<in>{1..1}. fetch_fails flaky (init ''http://b'') p" by simp
  from empty_crawl_and_nothing_saved [of offline "init ''http://b''" 3] h
  have a: "fst (scrape_books offline (init ''http://b'') 3) = Inr []" by blast
  from empty_crawl_and_nothing_saved [of flaky "init ''http://b''" 1] g1
  have b: "fst (scrape_books flaky (init ''http://b'') 1) = Inr []" by blast
  from h3 a g b show ?thesis by blast
qed

text \<open>
  Claim C10. With the scraper \<open>init base\<close>, the fetch of a page \<open>p \<ge> 1\<close> is the call
  of \<open>requests.get\<close> on \<open>base\<close> for \<open>p = 1\<close> and on
  \<open>base/catalogue/page-p.html\<close> for \<open>p > 1\<close>, with the header \<open>User-Agent\<close> set
  to the browser string that starts with \<open>Mozilla/5.0\<close> and with timeout 10, followed
  by the status check and the selection; the requests of a crawl are these calls for the
  pages \<open>1..K\<close> visited; and a network that refuses every request made with other
  headers or another timeout gives the same crawl.
\<close>

theorem requests_use_page_address_agent_and_timeout:
  "(\<exists>K. K \<le> max N 0
      \<and> filter is_HttpGet (snd (scrape_books env (init base) N)) =
          map (\<lambda>p. HttpGet (if p = 1 then base
                             else base @ ''/catalogue/page-'' @ str_int p @ ''.html'')
                      [(''User-Agent'', user_agent)] 10) [1..K])
   \<and> (\<forall>p\<ge>1. fetch_books env (init base) p =
         (case requests_get env
                 (if p = 1 then base else base @ ''/catalogue/page-'' @ str_int p @ ''.html'')
                 [(''User-Agent'', user_agent)] 10 of
            Inl e \<Rightarrow> Inl e
          | Inr response \<Rightarrow>
              (case raise_for_status env response of
                 Some e \<Rightarrow> Inl e
               | None \<Rightarrow> Inr (find_all_product_pod env (resp_text response)))))
   \<and> scrape_books (browser_only env) (init base) N = scrape_books env (init base) N
   \<and> take 12 user_agent = ''Mozilla/5.0 ''"
proof -
  from visited_upto_prefix [of 1 N env "init base"] obtain K where
    K: "K \<le> max N 0" "visited env (init base) [1..N] = [1..K]" by auto
  have "map (page_request (init base)) [1..K] =
      map (\<lambda>p. HttpGet (if p = 1 then base
                         else base @ ''/catalogue/page-'' @ str_int p @ ''.html'')
                  [(''User-Agent'', user_agent)] 10) [1..K]"
    by (rule map_cong) (auto simp: page_request_def page_url_def init_def)
  then have a: "filter is_HttpGet (snd (scrape_books env (init base) N)) =
      map (\<lambda>p. HttpGet (if p = 1 then base
                         else base @ ''/catalogue/page-'' @ str_int p @ ''.html'')
                  [(''User-Agent'', user_agent)] 10) [1..K]"
    by (simp add: scrape_books_eq K(2) concat_page_events_gets)
  have b: "\<forall>p\<ge>1. fetch_books env (init base) p =
         (case requests_get env
                 (if p = 1 then base else base @ ''/catalogue/page-'' @ str_int p @ ''.html'')
                 [(''User-Agent'', user_agent)] 10 of
            Inl e \<Rightarrow> Inl e
          | Inr response \<Rightarrow>
              (case raise_for_status env response of
                 Some e \<Rightarrow> Inl e
               | None \<Rightarrow> Inr (find_all_product_pod env (resp_text response))))"
    by (auto simp: fetch_books_def bind_exc_def page_url_def init_def)
  have "\<And>p. fetch_books (browser_only env) (init base) p = fetch_books env (init base) p"
    by (simp add: fetch_books_def browser_only_def init_def cong: option.case_cong)
  then have c: "scrape_books (browser_only env) (init base) N = scrape_books env (init base) N"
    by (rule scrape_books_fetch_cong)
  have d: "take 12 user_agent = ''Mozilla/5.0 ''" by (simp add: user_agent_def)
  from K(1) a b c d show ?thesis by blast
qed

theorem requests_use_page_address_agent_and_timeout_witness:
  "fetch_books flaky (init ''http://b'') 2 = Inr [book_with_price (Some ''$51.77'')]
   \<and> fst (scrape_books (browser_only flaky) (init ''http://b'') 2) =
       Inr [[(''Title'', ''Emma''), (''Price'', ''51.77''), (''Availability'', ''In stock''),
             (''Rating'', ''Three''), (''URL'', ''http://b/emma.html'')]]
   \<and> requests_get (browser_only flaky) ''http://b/catalogue/page-2.html'' [] 10 =
       Inl (PyExc ConnectionError ''refused'')
   \<and> requests_get (browser_only flaky) ''http://b/catalogue/page-2.html''
         [(''User-Agent'', user_agent)] 5 = Inl (PyExc ConnectionError ''refused'')"
proof -
  note t = requests_use_page_address_agent_and_timeout [of 2 flaky "''http://b''"]
  have s2: "str_int 2 = ''2''" by code_simp
  from t have "fetch_books flaky (init ''http://b'') 2 =
         (case requests_get flaky (''http://b'' @ ''/catalogue/page-'' @ str_int 2 @ ''.html'')
                 [(''User-Agent'', user_agent)] 10 of
            Inl e \<Rightarrow> Inl e
          | Inr response \<Rightarrow>
              (case raise_for_status flaky response of
                 Some e \<Rightarrow> Inl e
               | None \<Rightarrow> Inr (find_all_product_pod flaky (resp_text response))))"
    by simp
  then have a: "fetch_books flaky (init ''http://b'') 2 = Inr [book_with_price (Some ''$51.77'')]"
    by (simp add: s2 flaky_def site_env_def ok_page_def)
  have r: "fst (scrape_books flaky (init ''http://b'') 2) =
       Inr [[(''Title'', ''Emma''), (''Price'', ''51.77''), (''Availability'', ''In stock''),
             (''Rating'', ''Three''), (''URL'', ''http://b/emma.html'')]]" by code_simp
  from t have "scrape_books (browser_only flaky) (init ''http://b'') 2 =
      scrape_books flaky (init ''http://b'') 2" by blast
  then have b: "fst (scrape_books (browser_only flaky) (init ''http://b'') 2) =
       Inr [[(''Title'', ''Emma''), (''Price'', ''51.77''), (''Availability'', ''In stock''),
             (''Rating'', ''Three''), (''URL'', ''http://b/emma.html'')]]" using r by simp
  have c: "requests_get (browser_only flaky) ''http://b/catalogue/page-2.html'' [] 10 =
       Inl (PyExc ConnectionError ''refused'')" by code_simp
  have d: "requests_get (browser_only flaky) ''http://b/catalogue/page-2.html''
         [(''User-Agent'', user_agent)] 5 = Inl (PyExc ConnectionError ''refused'')" by code_simp
  from a b c d show ?thesis by blast
qed

end
